theory Spec2Isabelle
  imports Main "HOL-Library.Word" "HOL-Library.Char_ord" "HOL-Library.List_Lexorder"
    "HOL-Library.Multiset"
begin

section \<open>Data model (internal/models/task.go)\<close>

text \<open>
  A Go \<open>string\<close> is a sequence of bytes, which is what \<^typ>\<open>string\<close> is. \<open>int64\<close> is a
  \<^typ>\<open>64 word\<close> read with \<^const>\<open>sint\<close>; \<open>nextID++\<close> wraps. \<open>Priority\<close> and \<open>Progress\<close> are Go
  \<open>int\<close>s on which the program only compares, so they are \<^typ>\<open>int\<close>. A \<open>time.Time\<close> is
  represented by its instant, in nanoseconds from the Unix epoch, read in UTC.
\<close>

type_synonym int64 = "64 word"
type_synonym time = int

record Task =
  ID :: int64
  Title :: string
  Description :: string
  DueDate :: time
  Priority :: int
  Completed :: bool
  Progress :: int
  CreatedAt :: time
  UpdatedAt :: time

text \<open>The zero \<open>time.Time\<close> is January 1 of year 1, 00:00 UTC.\<close>

definition zero_time :: time where
  "zero_time = - 62135596800000000000"

definition zero_Task :: Task where
  "zero_Task = \<lparr>ID = 0, Title = [], Description = [], DueDate = zero_time, Priority = 0,
     Completed = False, Progress = 0, CreatedAt = zero_time, UpdatedAt = zero_time\<rparr>"

datatype error =
    MkdirFailed
  | CounterReadFailed
  | CounterParseFailed
  | CounterWriteFailed
  | TaskMarshalFailed
  | TaskWriteFailed
  | TaskNotFound int64
  | TaskReadFailed
  | TaskParseFailed
  | ReadDirFailed
  | TaskAccessFailed
  | TaskDeleteFailed
  | TitleEmpty
  | ProgressOutOfRange int
  | CreateFailed error

section \<open>The library the store is written against\<close>

subsection \<open>strings, strconv, fmt\<close>

definition HasPrefix :: "string \<Rightarrow> string \<Rightarrow> bool" where
  "HasPrefix s p = (take (length p) s = p)"

definition HasSuffix :: "string \<Rightarrow> string \<Rightarrow> bool" where
  "HasSuffix s p = (length p \<le> length s \<and> drop (length s - length p) s = p)"

definition TrimPrefix :: "string \<Rightarrow> string \<Rightarrow> string" where
  "TrimPrefix s p = (if HasPrefix s p then drop (length p) s else s)"

definition TrimSuffix :: "string \<Rightarrow> string \<Rightarrow> string" where
  "TrimSuffix s p = (if HasSuffix s p then take (length s - length p) s else s)"

definition byte_in :: "nat \<Rightarrow> nat \<Rightarrow> char \<Rightarrow> bool" where
  "byte_in lo hi c = (lo \<le> of_char c \<and> of_char c \<le> hi)"

definition digit_char :: "nat \<Rightarrow> char" where
  "digit_char d = ''0123456789'' ! d"

text \<open>The test \<open>'0' <= c && c <= '9'\<close> of \<open>ParseUint\<close>, and the digit \<open>c - '0'\<close>.\<close>

definition digit_val :: "char \<Rightarrow> nat option" where
  "digit_val c = (if byte_in 48 57 c then Some (of_char c - 48) else None)"

text \<open>The decimal digits of a natural number, most significant first, as \<open>%d\<close> prints them.\<close>

fun fmt_nat :: "nat \<Rightarrow> string" where
  "fmt_nat n = (if n < 10 then [digit_char n] else fmt_nat (n div 10) @ [digit_char (n mod 10)])"

declare fmt_nat.simps [simp del]

definition fmt_d :: "int \<Rightarrow> string" where
  "fmt_d i = (if i < 0 then CHR ''-'' # fmt_nat (nat (- i)) else fmt_nat (nat i))"

text \<open>
  \<open>strconv.ParseUint(s, 10, 64)\<close> reads the digits left to right; a byte that is not a
  decimal digit is a syntax error. The accumulator here is unbounded: the range is checked
  by \<open>ParseInt\<close> below, which rejects exactly the values that the library's own overflow
  test reports.
\<close>

fun parse_digits :: "nat \<Rightarrow> string \<Rightarrow> nat option" where
  "parse_digits n [] = Some n"
| "parse_digits n (c # cs) =
     (case digit_val c of None \<Rightarrow> None | Some d \<Rightarrow> parse_digits (n * 10 + d) cs)"

text \<open>
  \<open>strconv.ParseInt(s, 10, 64)\<close>: an optional sign, at least one digit, digits only, and a
  value within \<open>[-2^63, 2^63 - 1]\<close>; \<open>None\<close> is the error return.
\<close>

definition ParseInt :: "string \<Rightarrow> int64 option" where
  "ParseInt s =
     (if s = [] then None
      else let neg = (hd s = CHR ''-'');
               body = (if hd s = CHR ''+'' \<or> hd s = CHR ''-'' then tl s else s)
           in if body = [] then None
              else case parse_digits 0 body of
                     None \<Rightarrow> None
                   | Some un \<Rightarrow>
                       if \<not> neg \<and> un \<ge> 2 ^ 63 then None
                       else if neg \<and> un > 2 ^ 63 then None
                       else Some (if neg then - (word_of_nat un) else word_of_nat un))"

subsection \<open>encoding/json\<close>

text \<open>
  \<open>json.Marshal\<close> writes a string coerced to valid UTF-8: every byte that
  \<open>utf8.DecodeRuneInString\<close> rejects is replaced by U+FFFD, and \<open>json.Unmarshal\<close> reads the
  other bytes back as they were. \<open>utf8_seq_len\<close> is the length of the well-formed sequence
  at the head of the string, \<open>0\<close> when the first byte does not start one.
\<close>

fun cont_ok :: "string \<Rightarrow> bool" where
  "cont_ok [] = True"
| "cont_ok (c # cs) = (byte_in 0x80 0xBF c \<and> cont_ok cs)"

definition utf8_seq_len :: "string \<Rightarrow> nat" where
  "utf8_seq_len s =
     (case s of
        [] \<Rightarrow> 0
      | c # cs \<Rightarrow>
          let b = (of_char c :: nat);
              sz = (if b < 0x80 then 1 else if b < 0xC2 then 0 else if b < 0xE0 then 2
                    else if b < 0xF0 then 3 else if b < 0xF5 then 4 else 0);
              lo = (if b = 0xE0 then 0xA0 else if b = 0xF0 then 0x90 else 0x80);
              hi = (if b = 0xED then 0x9F else if b = 0xF4 then 0x8F else 0xBF)
          in if sz \<le> 1 then sz
             else if length cs < sz - 1 then 0
             else if \<not> byte_in lo hi (hd cs) then 0
             else if \<not> cont_ok (take (sz - 2) (tl cs)) then 0
             else sz)"

definition replacement_char :: string where
  "replacement_char = [CHR 0xEF, CHR 0xBF, CHR 0xBD]"

text \<open>The first argument counts the bytes of the current sequence still to be copied.\<close>

fun json_string :: "nat \<Rightarrow> string \<Rightarrow> string" where
  "json_string k [] = []"
| "json_string (Suc k) (c # cs) = c # json_string k cs"
| "json_string 0 (c # cs) =
     (if utf8_seq_len (c # cs) = 0 then replacement_char @ json_string 0 cs
      else c # json_string (utf8_seq_len (c # cs) - 1) cs)"

text \<open>\<open>utf8.ValidString\<close>, with the same counter.\<close>

fun valid_utf8 :: "nat \<Rightarrow> string \<Rightarrow> bool" where
  "valid_utf8 k [] = True"
| "valid_utf8 (Suc k) (c # cs) = valid_utf8 k cs"
| "valid_utf8 0 (c # cs) =
     (utf8_seq_len (c # cs) \<noteq> 0 \<and> valid_utf8 (utf8_seq_len (c # cs) - 1) cs)"

text \<open>
  \<open>Time.MarshalJSON\<close> fails when the year is outside \<open>[0, 9999]\<close>: the instant lies before
  0000-01-01T00:00:00Z or after 9999-12-31T23:59:59.999999999Z.
\<close>

definition json_time_ok :: "time \<Rightarrow> bool" where
  "json_time_ok t = (- 62167219200000000000 \<le> t \<and> t < 253402300800000000000)"

text \<open>
  The bytes of a file are represented by what \<open>json.Unmarshal\<close> makes of them for the two
  targets the store decodes into: a \<open>models.Task\<close> and the counter struct. \<open>None\<close> is a
  decoding error.
\<close>

datatype content = Content (as_task: "Task option") (as_counter: "int64 option")

text \<open>
  \<open>json.MarshalIndent\<close> of a task. Unknown keys are ignored by \<open>json.Unmarshal\<close> and absent
  keys leave the zero value, so a task document decodes as a counter with \<open>next_id = 0\<close> and
  a counter document decodes as the zero task.
\<close>

definition marshal_task :: "Task \<Rightarrow> content option" where
  "marshal_task t =
     (if json_time_ok (DueDate t) \<and> json_time_ok (CreatedAt t) \<and> json_time_ok (UpdatedAt t)
      then Some (Content
             (Some (t\<lparr>Title := json_string 0 (Title t), Description := json_string 0 (Description t)\<rparr>))
             (Some 0))
      else None)"

definition marshal_counter :: "int64 \<Rightarrow> content" where
  "marshal_counter n = Content (Some zero_Task) (Some n)"

section \<open>The tasks directory\<close>

text \<open>
  The file system is the tasks directory \<open>.taskmaster\<close>: its entries by name, and the
  conditions of the directory itself under which the calls of package \<open>os\<close> succeed.
  An entry is a regular file, with its read and write permission and its bytes, or a
  subdirectory, which \<open>os.Remove\<close> deletes only when it is empty.
\<close>

datatype node = File (readable: bool) (writable: bool) (data: content) | Dir (is_empty: bool)

record fsys =
  entries :: "(string \<times> node) list"
  mkdir_ok :: bool
  list_ok :: bool
  search_ok :: bool
  create_ok :: bool

datatype os_error = NotExist | OtherError

definition os_MkdirAll :: "fsys \<Rightarrow> bool" where
  "os_MkdirAll fs = mkdir_ok fs"

definition os_ReadFile :: "fsys \<Rightarrow> string \<Rightarrow> os_error + content" where
  "os_ReadFile fs name =
     (if \<not> search_ok fs then Inl OtherError
      else case map_of (entries fs) name of
             None \<Rightarrow> Inl NotExist
           | Some (Dir e) \<Rightarrow> Inl OtherError
           | Some (File r w c) \<Rightarrow> if r then Inr c else Inl OtherError)"

text \<open>
  \<open>os.WriteFile\<close> truncates an existing file, keeping its mode, or creates the file. A
  write that fails is one that fails when the file is opened, before anything is truncated:
  the directory is then as it was.
\<close>

fun store_entry :: "string \<Rightarrow> node \<Rightarrow> (string \<times> node) list \<Rightarrow> (string \<times> node) list" where
  "store_entry name n [] = [(name, n)]"
| "store_entry name n ((k, v) # es) =
     (if k = name then (k, n) # es else (k, v) # store_entry name n es)"

definition os_WriteFile :: "fsys \<Rightarrow> string \<Rightarrow> content \<Rightarrow> bool \<times> fsys" where
  "os_WriteFile fs name c =
     (if \<not> search_ok fs then (False, fs)
      else case map_of (entries fs) name of
             None \<Rightarrow>
               if create_ok fs
               then (True, fs\<lparr>entries := store_entry name (File True True c) (entries fs)\<rparr>)
               else (False, fs)
           | Some (Dir e) \<Rightarrow> (False, fs)
           | Some (File r w old) \<Rightarrow>
               if w then (True, fs\<lparr>entries := store_entry name (File r w c) (entries fs)\<rparr>)
               else (False, fs))"

definition os_Stat :: "fsys \<Rightarrow> string \<Rightarrow> os_error option" where
  "os_Stat fs name =
     (if \<not> search_ok fs then Some OtherError
      else case map_of (entries fs) name of None \<Rightarrow> Some NotExist | Some n \<Rightarrow> None)"

definition os_Remove :: "fsys \<Rightarrow> string \<Rightarrow> bool \<times> fsys" where
  "os_Remove fs name =
     (if \<not> search_ok fs \<or> \<not> create_ok fs then (False, fs)
      else case map_of (entries fs) name of
             None \<Rightarrow> (False, fs)
           | Some (Dir e) \<Rightarrow>
               if e then (True, fs\<lparr>entries := filter (\<lambda>(k, v). k \<noteq> name) (entries fs)\<rparr>)
               else (False, fs)
           | Some (File r w c) \<Rightarrow>
               (True, fs\<lparr>entries := filter (\<lambda>(k, v). k \<noteq> name) (entries fs)\<rparr>))"

text \<open>\<open>os.ReadDir\<close> returns the entries sorted by file name.\<close>

definition os_ReadDir :: "fsys \<Rightarrow> (string \<times> node) list option" where
  "os_ReadDir fs = (if list_ok fs then Some (sort_key fst (entries fs)) else None)"


section \<open>The store (package storage, \<open>FileStorage\<close>)\<close>

text \<open>
  The paths of a \<open>FileStorage\<close> are fixed by \<open>NewFileStorage\<close>; its state is the counter.
  The mutex serialises the calls, which are taken one at a time here. Every operation
  takes the file system, and the value \<open>time.Now()\<close> returns to it where it asks, and gives
  back Go's \<open>error\<close> (\<open>None\<close> is \<open>nil\<close>) with the file system and the store as they
  are left, also when it fails. The parameter \<open>id\<close> of the source is \<open>tid\<close>.
\<close>

record FileStorage =
  nextID :: int64

definition counterFile :: string where
  "counterFile = ''counter.json''"

definition getTaskFilename :: "int64 \<Rightarrow> string" where
  "getTaskFilename tid = ''task_'' @ fmt_d (sint tid) @ ''.json''"

definition saveCounter :: "FileStorage \<Rightarrow> fsys \<Rightarrow> error option \<times> fsys" where
  "saveCounter s fs =
     (case os_WriteFile fs counterFile (marshal_counter (nextID s)) of
        (False, fs') \<Rightarrow> (Some CounterWriteFailed, fs')
      | (True, fs') \<Rightarrow> (None, fs'))"

definition Init :: "FileStorage \<Rightarrow> fsys \<Rightarrow> error option \<times> FileStorage \<times> fsys" where
  "Init s fs =
     (if \<not> os_MkdirAll fs then (Some MkdirFailed, s, fs)
      else case os_ReadFile fs counterFile of
             Inl NotExist \<Rightarrow>
               (let s' = s\<lparr>nextID := 1\<rparr>; (err, fs') = saveCounter s' fs in (err, s', fs'))
           | Inl OtherError \<Rightarrow> (Some CounterReadFailed, s, fs)
           | Inr c \<Rightarrow>
               (case as_counter c of
                  None \<Rightarrow> (Some CounterParseFailed, s, fs)
                | Some n \<Rightarrow> (None, s\<lparr>nextID := n\<rparr>, fs)))"

definition saveTask :: "fsys \<Rightarrow> Task \<Rightarrow> error option \<times> fsys" where
  "saveTask fs task =
     (case marshal_task task of
        None \<Rightarrow> (Some TaskMarshalFailed, fs)
      | Some d \<Rightarrow>
          (case os_WriteFile fs (getTaskFilename (ID task)) d of
             (False, fs') \<Rightarrow> (Some TaskWriteFailed, fs')
           | (True, fs') \<Rightarrow> (None, fs')))"

text \<open>\<open>CreateTask\<close> writes the id and the timestamps into the caller's task, returned here.\<close>

definition CreateTask ::
  "time \<Rightarrow> FileStorage \<Rightarrow> fsys \<Rightarrow> Task \<Rightarrow> error option \<times> Task \<times> FileStorage \<times> fsys" where
  "CreateTask now s fs task =
     (let task1 = task\<lparr>ID := nextID s\<rparr>;
          s' = s\<lparr>nextID := nextID s + 1\<rparr>;
          task2 = task1\<lparr>CreatedAt := now, UpdatedAt := now\<rparr>
      in case saveCounter s' fs of
           (Some err, fs') \<Rightarrow> (Some err, task2, s', fs')
         | (None, fs') \<Rightarrow>
             (let (err, fs'') = saveTask fs' task2 in (err, task2, s', fs'')))"

definition GetTask :: "fsys \<Rightarrow> int64 \<Rightarrow> error + Task" where
  "GetTask fs tid =
     (case os_ReadFile fs (getTaskFilename tid) of
        Inl NotExist \<Rightarrow> Inl (TaskNotFound tid)
      | Inl OtherError \<Rightarrow> Inl TaskReadFailed
      | Inr c \<Rightarrow> (case as_task c of None \<Rightarrow> Inl TaskParseFailed | Some t \<Rightarrow> Inr t))"



definition UpdateTask :: "time \<Rightarrow> fsys \<Rightarrow> Task \<Rightarrow> error option \<times> fsys" where
  "UpdateTask now fs task =
     (case GetTask fs (ID task) of
        Inl err \<Rightarrow> (Some err, fs)
      | Inr old \<Rightarrow> saveTask fs (task\<lparr>UpdatedAt := now\<rparr>))"

definition DeleteTask :: "fsys \<Rightarrow> int64 \<Rightarrow> error option \<times> fsys" where
  "DeleteTask fs tid =
     (case os_Stat fs (getTaskFilename tid) of
        Some NotExist \<Rightarrow> (Some (TaskNotFound tid), fs)
      | Some OtherError \<Rightarrow> (Some TaskAccessFailed, fs)
      | None \<Rightarrow>
          (case os_Remove fs (getTaskFilename tid) of
             (False, fs') \<Rightarrow> (Some TaskDeleteFailed, fs')
           | (True, fs') \<Rightarrow> (None, fs')))"

definition CompleteTask :: "time \<Rightarrow> fsys \<Rightarrow> int64 \<Rightarrow> error option \<times> fsys" where
  "CompleteTask now fs tid =
     (case GetTask fs tid of
        Inl err \<Rightarrow> (Some err, fs)
      | Inr task \<Rightarrow> saveTask fs (task\<lparr>Completed := True, Progress := 100, UpdatedAt := now\<rparr>))"

definition UpdateTaskProgress :: "time \<Rightarrow> fsys \<Rightarrow> int64 \<Rightarrow> int \<Rightarrow> error option \<times> fsys" where
  "UpdateTaskProgress now fs tid progress =
     (case GetTask fs tid of
        Inl err \<Rightarrow> (Some err, fs)
      | Inr task \<Rightarrow>
          (let task1 = task\<lparr>Progress := progress, UpdatedAt := now\<rparr>;
               task2 = (if progress = 100 then task1\<lparr>Completed := True\<rparr> else task1)
           in saveTask fs task2))"

section \<open>The service (package app, \<open>App\<close>)\<close>

definition App_CreateTask ::
  "time \<Rightarrow> FileStorage \<Rightarrow> fsys \<Rightarrow> string \<Rightarrow> string \<Rightarrow> time \<Rightarrow> int
     \<Rightarrow> (error + Task) \<times> FileStorage \<times> fsys" where
  "App_CreateTask now s fs title desc dueDate priority =
     (if title = [] then (Inl TitleEmpty, s, fs)
      else let task = \<lparr>ID = 0, Title = title, Description = desc, DueDate = dueDate,
                        Priority = priority, Completed = False, Progress = 0,
                        CreatedAt = zero_time, UpdatedAt = zero_time\<rparr>
           in case CreateTask now s fs task of
                (Some err, task', s', fs') \<Rightarrow> (Inl (CreateFailed err), s', fs')
              | (None, task', s', fs') \<Rightarrow> (Inr task', s', fs'))"

definition App_UpdateTaskProgress :: "time \<Rightarrow> fsys \<Rightarrow> int64 \<Rightarrow> int \<Rightarrow> error option \<times> fsys" where
  "App_UpdateTaskProgress now fs tid progress =
     (if progress < 0 \<or> progress > 100 then (Some (ProgressOutOfRange progress), fs)
      else UpdateTaskProgress now fs tid progress)"

definition App_UpdateTaskDetails ::
  "time \<Rightarrow> fsys \<Rightarrow> int64 \<Rightarrow> string \<Rightarrow> string \<Rightarrow> time \<Rightarrow> int \<Rightarrow> error option \<times> fsys" where
  "App_UpdateTaskDetails now fs tid title desc dueDate priority =
     (case GetTask fs tid of
        Inl err \<Rightarrow> (Some err, fs)
      | Inr task \<Rightarrow>
          UpdateTask now fs
            (task\<lparr>Title := title, Description := desc, DueDate := dueDate, Priority := priority\<rparr>))"

section \<open>Sequences of calls, and conditions on the directory\<close>

text \<open>A sequence of \<open>CreateTask\<close> calls on one store instance, with what each call returns.\<close>

fun CreateTasks ::
  "FileStorage \<Rightarrow> fsys \<Rightarrow> (time \<times> Task) list \<Rightarrow> (error option \<times> Task) list \<times> FileStorage \<times> fsys" where
  "CreateTasks s fs [] = ([], s, fs)"
| "CreateTasks s fs ((now, task) # calls) =
     (case CreateTask now s fs task of
        (err, task', s', fs') \<Rightarrow>
          (case CreateTasks s' fs' calls of
             (rs, s'', fs'') \<Rightarrow> ((err, task') # rs, s'', fs'')))"

text \<open>\<open>os.WriteFile\<close> succeeds on this name: a writable file, or a name that can be created.\<close>

definition writable_at :: "fsys \<Rightarrow> string \<Rightarrow> bool" where
  "writable_at fs name =
     (search_ok fs \<and>
      (case map_of (entries fs) name of
         None \<Rightarrow> create_ok fs
       | Some (File r w c) \<Rightarrow> w
       | Some (Dir e) \<Rightarrow> False))"

text \<open>What is written under this name can be read back: no unreadable file is in the way.\<close>

definition reads_back :: "fsys \<Rightarrow> string \<Rightarrow> bool" where
  "reads_back fs name =
     (case map_of (entries fs) name of Some (File r w c) \<Rightarrow> r | _ \<Rightarrow> True)"

text \<open>A directory just made by \<open>NewFileStorage\<close>, on which every call of \<open>os\<close> succeeds.\<close>

definition fresh_dir :: fsys where
  "fresh_dir = \<lparr>entries = [], mkdir_ok = True, list_ok = True, search_ok = True, create_ok = True\<rparr>"

text \<open>A directory where the name of task 1 is taken by a subdirectory.\<close>

definition blocked_dir :: fsys where
  "blocked_dir = fresh_dir\<lparr>entries := [(''task_1.json'', Dir True)]\<rparr>"

text \<open>
  A store holding one task as the service creates it, and the same store with the task
  completed.
\<close>

definition sample_task :: Task where
  "sample_task = \<lparr>ID = 1, Title = ''Write report'', Description = [],
     DueDate = 1893456000000000000, Priority = 2, Completed = False, Progress = 0,
     CreatedAt = 1767225600000000000, UpdatedAt = 1767225600000000000\<rparr>"

definition one_task_dir :: fsys where
  "one_task_dir = fresh_dir\<lparr>entries :=
     [(''counter.json'', File True True (marshal_counter 2)),
      (''task_1.json'', File True True (Content (Some sample_task) (Some 0)))]\<rparr>"

definition done_task :: Task where
  "done_task = sample_task\<lparr>Completed := True, Progress := 100, UpdatedAt := 1767225600000000001\<rparr>"

definition done_dir :: fsys where
  "done_dir = fresh_dir\<lparr>entries :=
     [(''counter.json'', File True True (marshal_counter 2)),
      (''task_1.json'', File True True (Content (Some done_task) (Some 0)))]\<rparr>"

text \<open>A store whose counter record holds the largest \<open>int64\<close>.\<close>

definition max_counter_dir :: fsys where
  "max_counter_dir = fresh_dir\<lparr>entries :=
     [(''counter.json'', File True True (marshal_counter 9223372036854775807))]\<rparr>"

text \<open>A task whose title is the single byte \<open>0xFF\<close>, which is not valid UTF-8.\<close>

definition raw_title_task :: Task where
  "raw_title_task = zero_Task\<lparr>Title := [CHR 0xFF], Priority := 1\<rparr>"

section \<open>What a listing is expected to hold\<close>

text \<open>
  The id that the loop of \<open>GetAllTasks\<close> extracts from a file name: the name has the prefix
  \<open>task_\<close> and the suffix \<open>.json\<close>, and what is between them parses as an \<open>int64\<close>.
\<close>

definition task_file_id :: "string \<Rightarrow> int64 option" where
  "task_file_id name =
     (if HasPrefix name ''task_'' \<and> HasSuffix name ''.json''
      then ParseInt (TrimSuffix (TrimPrefix name ''task_'') ''.json'') else None)"

text \<open>
  Every entry whose name yields an id is named as the store names the record of that id:
  \<open>task_<id>.json\<close> with the id as \<open>%d\<close> prints it.
\<close>

definition store_named :: "(string \<times> node) list \<Rightarrow> bool" where
  "store_named es =
     list_all (\<lambda>(name, n). case task_file_id name of
                               None \<Rightarrow> True
                             | Some tid \<Rightarrow> name = getTaskFilename tid) es"






section \<open>Facts about the library model\<close>

lemmas os_defs =
  os_MkdirAll_def os_ReadFile_def os_WriteFile_def os_Stat_def os_Remove_def os_ReadDir_def

lemmas name_defs = counterFile_def getTaskFilename_def fmt_d_def fmt_nat.simps digit_char_def

lemma map_of_store_entry [simp]:
  "map_of (store_entry name n es) k = (if k = name then Some n else map_of es k)"
  by (induction es) auto

lemma map_of_remove_entry [simp]:
  "map_of (filter (\<lambda>(k, v). k \<noteq> name) es) k = (if k = name then None else map_of es k)"
  by (induction es) auto

lemma counterFile_not_task [simp]:
  "counterFile \<noteq> getTaskFilename tid" "getTaskFilename tid \<noteq> counterFile"
  by (simp_all add: counterFile_def getTaskFilename_def)

text \<open>\<open>ParseInt\<close> reads back what \<open>%d\<close> prints.\<close>

lemma digit_val_digit_char: "d < 10 \<Longrightarrow> digit_val (digit_char d) = Some d"
proof -
  assume "d < 10"
  then have "d \<in> {0, 1, 2, 3, 4, 5, 6, 7, 8, 9}" by auto
  then show ?thesis
    by (auto simp: digit_val_def digit_char_def byte_in_def)
qed

lemma digit_char_not_sign: "d < 10 \<Longrightarrow> digit_char d \<noteq> CHR ''+'' \<and> digit_char d \<noteq> CHR ''-''"
proof -
  assume "d < 10"
  then have "d \<in> {0, 1, 2, 3, 4, 5, 6, 7, 8, 9}" by auto
  then show ?thesis by (auto simp: digit_char_def)
qed

lemma parse_digits_append:
  "parse_digits a (xs @ ys) =
     (case parse_digits a xs of None \<Rightarrow> None | Some b \<Rightarrow> parse_digits b ys)"
  by (induction xs arbitrary: a) (auto split: option.splits)

lemma parse_digits_fmt_nat: "parse_digits 0 (fmt_nat n) = Some n"
proof (induction n rule: fmt_nat.induct)
  case (1 n)
  show ?case
  proof (cases "n < 10")
    case True
    then show ?thesis by (subst fmt_nat.simps) (simp add: digit_val_digit_char)
  next
    case False
    then have "parse_digits 0 (fmt_nat (n div 10)) = Some (n div 10)" using 1 by simp
    then show ?thesis using False
      by (subst fmt_nat.simps) (simp add: parse_digits_append digit_val_digit_char)
  qed
qed

lemma fmt_nat_head: "fmt_nat n \<noteq> [] \<and> hd (fmt_nat n) \<noteq> CHR ''+'' \<and> hd (fmt_nat n) \<noteq> CHR ''-''"
proof (induction n rule: fmt_nat.induct)
  case (1 n)
  show ?case
  proof (cases "n < 10")
    case True
    then show ?thesis by (subst (1 2 3) fmt_nat.simps) (simp add: digit_char_not_sign)
  next
    case False
    then show ?thesis using 1 by (subst (1 2 3) fmt_nat.simps) simp
  qed
qed

lemma ParseInt_fmt_d: "ParseInt (fmt_d (sint (w :: 64 word))) = Some w"
proof (cases "sint w < 0")
  case True
  have "nat (- sint w) \<le> 2 ^ 63" using sint_ge [of w] by simp
  then show ?thesis using True fmt_nat_head [of "nat (- sint w)"]
    by (simp add: ParseInt_def fmt_d_def parse_digits_fmt_nat)
next
  case False
  have "nat (sint w) < 2 ^ 63" using sint_lt [of w] by simp
  then show ?thesis using False fmt_nat_head [of "nat (sint w)"]
    by (simp add: ParseInt_def fmt_d_def parse_digits_fmt_nat)
qed

section \<open>Writing a record and reading it back\<close>

lemma saveTask_failed: "fst (saveTask fs t) \<noteq> None \<Longrightarrow> snd (saveTask fs t) = fs"
  by (auto simp: saveTask_def os_WriteFile_def split: option.splits node.splits if_splits)

lemma saveTask_GetTask:
  "fst (saveTask fs t) = None \<Longrightarrow> ID t = tid \<Longrightarrow> reads_back fs (getTaskFilename tid) \<Longrightarrow>
   GetTask (snd (saveTask fs t)) tid =
     Inr (t\<lparr>Title := json_string 0 (Title t), Description := json_string 0 (Description t)\<rparr>)"
  by (auto simp: saveTask_def os_WriteFile_def os_ReadFile_def GetTask_def marshal_task_def
      reads_back_def split: option.splits node.splits if_splits)

lemma saveTask_succeeds:
  "ID t = tid \<Longrightarrow> writable_at fs (getTaskFilename tid) \<Longrightarrow> json_time_ok (DueDate t) \<Longrightarrow>
   json_time_ok (CreatedAt t) \<Longrightarrow> json_time_ok (UpdatedAt t) \<Longrightarrow> fst (saveTask fs t) = None"
  by (auto simp: saveTask_def os_WriteFile_def marshal_task_def writable_at_def
      split: option.splits node.splits if_splits)

lemma GetTask_reads_back: "GetTask fs tid = Inr t \<Longrightarrow> reads_back fs (getTaskFilename tid)"
  by (auto simp: GetTask_def os_ReadFile_def reads_back_def
      split: option.splits node.splits if_splits sum.splits os_error.splits)

lemma GetTask_after_saveTask:
  "GetTask fs tid = Inr t0 \<Longrightarrow> ID t = tid \<Longrightarrow>
   GetTask (snd (saveTask fs t)) tid =
     (if fst (saveTask fs t) = None
      then Inr (t\<lparr>Title := json_string 0 (Title t), Description := json_string 0 (Description t)\<rparr>)
      else Inr t0)"
  by (simp add: saveTask_failed saveTask_GetTask GetTask_reads_back)

lemma json_string_valid: "valid_utf8 k s \<Longrightarrow> json_string k s = s"
  by (induction k s rule: json_string.induct) auto

lemma sint_succ: "sint (w :: 64 word) < 2 ^ 63 - 1 \<Longrightarrow> sint (w + 1) = sint w + 1"
proof -
  assume "sint w < 2 ^ 63 - 1"
  moreover have "- (2 ^ 63) \<le> sint w" using sint_ge [of w] by simp
  ultimately show ?thesis by (simp add: sint_word_ariths signed_take_bit_int_eq_self)
qed

lemmas eval_defs = UpdateTaskProgress_def CompleteTask_def UpdateTask_def DeleteTask_def
  GetTask_def saveTask_def saveCounter_def CreateTask_def marshal_task_def marshal_counter_def
  os_defs name_defs one_task_dir_def fresh_dir_def sample_task_def json_time_ok_def Let_def

text \<open>The sample stores are what the operations produce from a fresh directory.\<close>

lemma one_task_dir_reached:
  "Init \<lparr>nextID = 0\<rparr> fresh_dir = (None, \<lparr>nextID = 1\<rparr>, snd (snd (Init \<lparr>nextID = 0\<rparr> fresh_dir))) \<and>
   App_CreateTask 1767225600000000000 \<lparr>nextID = 1\<rparr> (snd (snd (Init \<lparr>nextID = 0\<rparr> fresh_dir)))
     ''Write report'' [] 1893456000000000000 2 = (Inr sample_task, \<lparr>nextID = 2\<rparr>, one_task_dir)"
  by (simp add: Init_def App_CreateTask_def eval_defs utf8_seq_len_def byte_in_def zero_time_def)

lemma done_dir_reached:
  "CompleteTask 1767225600000000001 one_task_dir 1 = (None, done_dir)"
  by (simp add: eval_defs done_dir_def done_task_def utf8_seq_len_def byte_in_def)

section \<open>Fresh store\<close>

text \<open>
  C9. On a fresh store (a directory with no counter record, in which files can be created
  and the records of tasks 1 and 2 can be written and read back; an empty directory is
  one), \<open>Init\<close> sets the counter to 1 and persists it; the first task created through the
  service gets id 1, progress 0 and completed false, and reads back so with the priority
  given; a second create on the same instance gets id 2, and the persisted counter record
  then reads \<open>next_id = 3\<close>.
\<close>

theorem fresh_store_two_creates:
  assumes "map_of (entries fs) counterFile = None" "mkdir_ok fs" "search_ok fs" "create_ok fs"
    and "writable_at fs (getTaskFilename 1)" "reads_back fs (getTaskFilename 1)"
    and "writable_at fs (getTaskFilename 2)"
    and "title1 \<noteq> []" "title2 \<noteq> []"
    and "json_time_ok now1" "json_time_ok due1" "json_time_ok now2" "json_time_ok due2"
  shows "case Init s fs of (e0, s1, fs1) \<Rightarrow>
           e0 = None \<and> nextID s1 = 1 \<and> os_ReadFile fs1 counterFile = Inr (marshal_counter 1) \<and>
           (case App_CreateTask now1 s1 fs1 title1 desc1 due1 prio1 of (r1, s2, fs2) \<Rightarrow>
              (\<exists>t1. r1 = Inr t1 \<and> ID t1 = 1 \<and> Progress t1 = 0 \<and> \<not> Completed t1) \<and>
              (\<exists>v. GetTask fs2 1 = Inr v \<and> ID v = 1 \<and> Priority v = prio1 \<and>
                    Progress v = 0 \<and> \<not> Completed v) \<and>
              (case App_CreateTask now2 s2 fs2 title2 desc2 due2 prio2 of (r2, s3, fs3) \<Rightarrow>
                 (\<exists>t2. r2 = Inr t2 \<and> ID t2 = 2) \<and> nextID s3 = 3 \<and>
                 os_ReadFile fs3 counterFile = Inr (marshal_counter 3) \<and>
                 as_counter (marshal_counter 3) = Some 3))"
  using assms
  by (auto simp: Init_def saveCounter_def App_CreateTask_def CreateTask_def saveTask_def
      GetTask_def marshal_task_def marshal_counter_def zero_time_def os_defs name_defs Let_def
      writable_at_def reads_back_def split: option.splits node.splits)

text \<open>
  The scenario of the specification: title "Write report", priority 2 (High), due
  2030-01-01, then a second task.
\<close>

theorem fresh_store_two_creates_witness:
  "case Init \<lparr>nextID = 0\<rparr> fresh_dir of (e0, s1, fs1) \<Rightarrow>
     e0 = None \<and> nextID s1 = 1 \<and> os_ReadFile fs1 counterFile = Inr (marshal_counter 1) \<and>
     (case App_CreateTask 1767225600000000000 s1 fs1 ''Write report'' [] 1893456000000000000 2
        of (r1, s2, fs2) \<Rightarrow>
        (\<exists>t1. r1 = Inr t1 \<and> ID t1 = 1 \<and> Progress t1 = 0 \<and> \<not> Completed t1) \<and>
        (\<exists>v. GetTask fs2 1 = Inr v \<and> ID v = 1 \<and> Priority v = 2 \<and>
              Progress v = 0 \<and> \<not> Completed v) \<and>
        (case App_CreateTask 1767225600000000001 s2 fs2 ''Second'' ''x'' zero_time 0
           of (r2, s3, fs3) \<Rightarrow>
           (\<exists>t2. r2 = Inr t2 \<and> ID t2 = 2) \<and> nextID s3 = 3 \<and>
           os_ReadFile fs3 counterFile = Inr (marshal_counter 3) \<and>
           as_counter (marshal_counter 3) = Some 3))"
  using fresh_store_two_creates [where fs = fresh_dir and s = "\<lparr>nextID = 0\<rparr>"
      and ?title1.0 = "''Write report''" and ?desc1.0 = "[]" and ?prio1.0 = 2
      and ?now1.0 = 1767225600000000000 and ?due1.0 = 1893456000000000000
      and ?title2.0 = "''Second''" and ?desc2.0 = "''x''" and ?prio2.0 = 0
      and ?now2.0 = 1767225600000000001 and ?due2.0 = zero_time]
  by (simp add: fresh_dir_def json_time_ok_def zero_time_def writable_at_def reads_back_def)

section \<open>The counter and a failed create\<close>

text \<open>
  C5. \<open>CreateTask\<close> advances the in-memory counter whatever happens afterwards. The counter
  is persisted before the task record is written: when saving the counter fails, nothing
  is written at all; when the task record then fails to be written (it cannot be encoded,
  or the file cannot be written), the counter record on disk already holds the advanced
  value, the in-memory counter stays advanced, and what is stored under the id just
  handed out is what was there before.
\<close>

theorem CreateTask_counter_before_record:
  "case CreateTask now s fs task of (err, task', s', fs') \<Rightarrow>
     nextID s' = nextID s + 1 \<and> ID task' = nextID s \<and>
     (err = Some CounterWriteFailed \<longrightarrow> fs' = fs) \<and>
     (err = Some TaskMarshalFailed \<or> err = Some TaskWriteFailed \<longrightarrow>
        (\<exists>r w. map_of (entries fs') counterFile = Some (File r w (marshal_counter (nextID s + 1)))) \<and>
        map_of (entries fs') (getTaskFilename (nextID s)) =
          map_of (entries fs) (getTaskFilename (nextID s))) \<and>
     (err = None \<longrightarrow>
        (\<exists>r w. map_of (entries fs') counterFile = Some (File r w (marshal_counter (nextID s + 1)))))"
  by (auto simp: CreateTask_def saveCounter_def saveTask_def os_WriteFile_def Let_def
      split: option.split node.split)

theorem CreateTask_counter_before_record_witness:
  "case CreateTask 0 \<lparr>nextID = 1\<rparr> blocked_dir zero_Task of (err, task', s', fs') \<Rightarrow>
     err = Some TaskWriteFailed \<and> nextID s' = 2 \<and> ID task' = 1 \<and>
     map_of (entries fs') counterFile = Some (File True True (marshal_counter 2)) \<and>
     map_of (entries fs') (getTaskFilename 1) = Some (Dir True)"
  using CreateTask_counter_before_record
    [where now = 0 and s = "\<lparr>nextID = 1\<rparr>" and fs = blocked_dir and task = zero_Task]
  by (simp add: CreateTask_def saveCounter_def saveTask_def os_WriteFile_def Let_def
      blocked_dir_def fresh_dir_def marshal_task_def zero_Task_def zero_time_def
      json_time_ok_def name_defs)

section \<open>Progress and completion\<close>

text \<open>
  C2, as stated, fails in its last clause: the store's \<open>UpdateTaskProgress\<close> does not check
  the range, so it stores a progress of 150, and \<open>CompleteTask\<close>, which sets progress to 100
  whatever it was, then lowers it.
\<close>

theorem CompleteTask_lowers_progress:
  "fst (UpdateTaskProgress 5 one_task_dir 1 150) = None \<and>
   GetTask (snd (UpdateTaskProgress 5 one_task_dir 1 150)) 1 =
     Inr (sample_task\<lparr>Progress := 150, UpdatedAt := 5\<rparr>) \<and>
   fst (CompleteTask 6 (snd (UpdateTaskProgress 5 one_task_dir 1 150)) 1) = None \<and>
   GetTask (snd (CompleteTask 6 (snd (UpdateTaskProgress 5 one_task_dir 1 150)) 1)) 1 =
     Inr (sample_task\<lparr>Progress := 100, Completed := True, UpdatedAt := 6\<rparr>) \<and>
   (100 :: int) < 150"
  by (simp add: eval_defs utf8_seq_len_def byte_in_def)

text \<open>
  C2, amended. For a task stored under its id (the record carries the id it is stored
  under, as every record the store writes does): after \<open>UpdateTaskProgress(id, 100)\<close> the
  stored task is completed (and its progress is 100); after \<open>CompleteTask(id)\<close> the stored
  task has progress 100 and is completed, which does not lower a progress that was at most
  100; after \<open>UpdateTaskProgress(id, p)\<close> the stored progress is exactly \<open>p\<close>, whatever the
  completion state, and a completed task stays completed. Both operations succeed when the
  record can be written.
\<close>

theorem progress_and_completion:
  assumes "GetTask fs tid = Inr t" and "ID t = tid"
  shows "(fst (UpdateTaskProgress now fs tid 100) = None \<longrightarrow>
            (\<exists>t'. GetTask (snd (UpdateTaskProgress now fs tid 100)) tid = Inr t' \<and>
                  Completed t' \<and> Progress t' = 100)) \<and>
         (fst (CompleteTask now fs tid) = None \<longrightarrow>
            (\<exists>t'. GetTask (snd (CompleteTask now fs tid)) tid = Inr t' \<and>
                  Progress t' = 100 \<and> Completed t' \<and>
                  (Progress t \<le> 100 \<longrightarrow> Progress t \<le> Progress t'))) \<and>
         (fst (UpdateTaskProgress now fs tid p) = None \<longrightarrow>
            (\<exists>t'. GetTask (snd (UpdateTaskProgress now fs tid p)) tid = Inr t' \<and>
                  Progress t' = p \<and> (Completed t \<longrightarrow> Completed t'))) \<and>
         (writable_at fs (getTaskFilename tid) \<and> json_time_ok now \<and> json_time_ok (DueDate t) \<and>
          json_time_ok (CreatedAt t) \<longrightarrow>
            fst (UpdateTaskProgress now fs tid p) = None \<and> fst (CompleteTask now fs tid) = None)"
  using assms GetTask_reads_back [OF assms(1)]
  by (auto simp: UpdateTaskProgress_def CompleteTask_def Let_def saveTask_GetTask saveTask_succeeds)

theorem progress_and_completion_witness:
  "GetTask one_task_dir 1 = Inr sample_task \<and> ID sample_task = 1 \<and>
   fst (UpdateTaskProgress 5 one_task_dir 1 100) = None \<and>
   (\<exists>t'. GetTask (snd (UpdateTaskProgress 5 one_task_dir 1 100)) 1 = Inr t' \<and>
         Completed t' \<and> Progress t' = 100) \<and>
   fst (CompleteTask 5 one_task_dir 1) = None \<and>
   (\<exists>t'. GetTask (snd (CompleteTask 5 one_task_dir 1)) 1 = Inr t' \<and>
         Progress t' = 100 \<and> Completed t')"
  using progress_and_completion [where fs = one_task_dir and tid = 1 and t = sample_task
      and now = 5 and p = 100]
  by (simp add: eval_defs)

text \<open>
  C3. For a task stored under its id and \<open>p\<close> in \<open>[0, 100]\<close>, the service's
  \<open>UpdateTaskProgress(id, p)\<close> succeeds when the record can be written, and whenever it
  succeeds the stored progress is \<open>p\<close>. For \<open>p\<close> outside \<open>[0, 100]\<close> it returns the validation
  error and the directory is as before: the store is not called.
\<close>

theorem service_progress_validation:
  "(GetTask fs tid = Inr t \<and> ID t = tid \<and> 0 \<le> p \<and> p \<le> 100 \<longrightarrow>
      (fst (App_UpdateTaskProgress now fs tid p) = None \<longrightarrow>
         (\<exists>t'. GetTask (snd (App_UpdateTaskProgress now fs tid p)) tid = Inr t' \<and>
               Progress t' = p)) \<and>
      (writable_at fs (getTaskFilename tid) \<and> json_time_ok now \<and> json_time_ok (DueDate t) \<and>
       json_time_ok (CreatedAt t) \<longrightarrow> fst (App_UpdateTaskProgress now fs tid p) = None)) \<and>
   (p < 0 \<or> 100 < p \<longrightarrow>
      App_UpdateTaskProgress now fs tid p = (Some (ProgressOutOfRange p), fs))"
  using GetTask_reads_back [of fs tid t]
  by (auto simp: App_UpdateTaskProgress_def UpdateTaskProgress_def Let_def saveTask_GetTask
      saveTask_succeeds)

theorem service_progress_validation_witness:
  "GetTask one_task_dir 1 = Inr sample_task \<and> ID sample_task = 1 \<and>
   writable_at one_task_dir (getTaskFilename 1) \<and>
   fst (App_UpdateTaskProgress 5 one_task_dir 1 40) = None \<and>
   (\<exists>t'. GetTask (snd (App_UpdateTaskProgress 5 one_task_dir 1 40)) 1 = Inr t' \<and>
         Progress t' = 40) \<and>
   App_UpdateTaskProgress 5 one_task_dir 1 101 = (Some (ProgressOutOfRange 101), one_task_dir) \<and>
   App_UpdateTaskProgress 5 one_task_dir 1 (- 1) =
     (Some (ProgressOutOfRange (- 1)), one_task_dir)"
  using service_progress_validation [where fs = one_task_dir and tid = 1 and t = sample_task
      and now = 5 and p = 40]
    service_progress_validation [where fs = one_task_dir and tid = 1 and t = sample_task
      and now = 5 and p = 101]
  by (simp add: App_UpdateTaskProgress_def writable_at_def eval_defs)

section \<open>Deletion\<close>

text \<open>
  C8. When \<open>DeleteTask(id)\<close> succeeds, \<open>GetTask(id)\<close> then fails with the not-found error, and
  so it does when \<open>DeleteTask(id)\<close> itself reported not-found. \<open>DeleteTask\<close> on an id under
  which \<open>GetTask\<close> finds no record fails with the not-found error and changes nothing. A
  record file in a directory that can be searched and written is deleted.
\<close>

theorem delete_then_get:
  "(fst (DeleteTask fs tid) = None \<or> fst (DeleteTask fs tid) = Some (TaskNotFound tid) \<longrightarrow>
      GetTask (snd (DeleteTask fs tid)) tid = Inl (TaskNotFound tid)) \<and>
   (GetTask fs tid = Inl (TaskNotFound tid) \<longrightarrow>
      DeleteTask fs tid = (Some (TaskNotFound tid), fs)) \<and>
   (search_ok fs \<and> create_ok fs \<and>
    (\<exists>r w c. map_of (entries fs) (getTaskFilename tid) = Some (File r w c)) \<longrightarrow>
      fst (DeleteTask fs tid) = None)"
  by (auto simp: DeleteTask_def GetTask_def os_Stat_def os_Remove_def os_ReadFile_def
      split: option.splits node.splits if_splits sum.splits os_error.splits)

theorem delete_then_get_witness:
  "GetTask one_task_dir 1 = Inr sample_task \<and>
   fst (DeleteTask one_task_dir 1) = None \<and>
   GetTask (snd (DeleteTask one_task_dir 1)) 1 = Inl (TaskNotFound 1) \<and>
   GetTask one_task_dir 2 = Inl (TaskNotFound 2) \<and>
   DeleteTask one_task_dir 2 = (Some (TaskNotFound 2), one_task_dir)"
  using delete_then_get [where fs = one_task_dir and tid = 1]
    delete_then_get [where fs = one_task_dir and tid = 2]
  by (simp add: eval_defs)

section \<open>Completion is not undone by the operations on a task\<close>

text \<open>
  C10, as the claim states it for every store operation, fails: the store's \<open>UpdateTask\<close>
  writes the record its caller passes, so a record with \<open>completed = false\<close> replaces a
  completed one.
\<close>

theorem UpdateTask_uncompletes:
  "GetTask done_dir 1 = Inr done_task \<and> Completed done_task \<and>
   fst (UpdateTask 5 done_dir sample_task) = None \<and>
   GetTask (snd (UpdateTask 5 done_dir sample_task)) 1 = Inr (sample_task\<lparr>UpdatedAt := 5\<rparr>) \<and>
   \<not> Completed (sample_task\<lparr>UpdatedAt := 5\<rparr>)"
  by (simp add: eval_defs done_dir_def done_task_def utf8_seq_len_def byte_in_def)

text \<open>
  C10, amended. For a completed task stored under its id, the operations that load the
  task and write it back (the store's \<open>CompleteTask\<close> and \<open>UpdateTaskProgress\<close>, to which the
  service's \<open>CompleteTask\<close> passes through, and the service's \<open>UpdateTaskProgress\<close> and
  \<open>UpdateTaskDetails\<close>) leave it completed, whether they succeed or fail. In particular the
  service's \<open>UpdateTaskProgress(id, p)\<close> with \<open>0 \<le> p < 100\<close> succeeds when the record can be
  written, and the stored task then has progress \<open>p\<close> and is still completed. The store's
  \<open>UpdateTask\<close>, when it succeeds, stores the completed flag of the record its caller passes.
\<close>

theorem completed_is_kept:
  assumes "GetTask fs tid = Inr t" and "ID t = tid" and "Completed t"
  shows "(\<exists>t'. GetTask (snd (CompleteTask now fs tid)) tid = Inr t' \<and> Completed t') \<and>
         (\<exists>t'. GetTask (snd (UpdateTaskProgress now fs tid p)) tid = Inr t' \<and> Completed t') \<and>
         (\<exists>t'. GetTask (snd (App_UpdateTaskProgress now fs tid p)) tid = Inr t' \<and> Completed t') \<and>
         (\<exists>t'. GetTask (snd (App_UpdateTaskDetails now fs tid title desc dueDate priority)) tid = Inr t'
               \<and> Completed t') \<and>
         (0 \<le> p \<and> p < 100 \<and> writable_at fs (getTaskFilename tid) \<and> json_time_ok now \<and>
          json_time_ok (DueDate t) \<and> json_time_ok (CreatedAt t) \<longrightarrow>
            fst (App_UpdateTaskProgress now fs tid p) = None \<and>
            (\<exists>t'. GetTask (snd (App_UpdateTaskProgress now fs tid p)) tid = Inr t' \<and>
                  Progress t' = p \<and> Completed t')) \<and>
         (ID task = tid \<and> fst (UpdateTask now fs task) = None \<longrightarrow>
            (\<exists>t'. GetTask (snd (UpdateTask now fs task)) tid = Inr t' \<and>
                  Completed t' = Completed task))"
  using assms
  by (auto simp: CompleteTask_def UpdateTaskProgress_def App_UpdateTaskProgress_def
      App_UpdateTaskDetails_def UpdateTask_def Let_def GetTask_after_saveTask saveTask_succeeds)

theorem completed_is_kept_witness:
  "GetTask done_dir 1 = Inr done_task \<and> ID done_task = 1 \<and> Completed done_task \<and>
   fst (App_UpdateTaskProgress 1767225600000000002 done_dir 1 50) = None \<and>
   (\<exists>t'. GetTask (snd (App_UpdateTaskProgress 1767225600000000002 done_dir 1 50)) 1 = Inr t' \<and>
         Progress t' = 50 \<and> Completed t')"
  using completed_is_kept [where fs = done_dir and tid = 1 and t = done_task
      and now = 1767225600000000002 and p = 50]
  by (simp add: App_UpdateTaskProgress_def eval_defs done_dir_def done_task_def)

section \<open>Updating the details of a task\<close>

text \<open>
  C7, as stated, fails for a title (or description) that is not valid UTF-8: the record is
  stored as JSON, and what is stored is the string with every invalid byte replaced by
  U+FFFD.
\<close>

theorem details_title_not_kept:
  "GetTask one_task_dir 1 = Inr sample_task \<and>
   fst (App_UpdateTaskDetails 5 one_task_dir 1 [CHR 0xFF] [] 7 3) = None \<and>
   GetTask (snd (App_UpdateTaskDetails 5 one_task_dir 1 [CHR 0xFF] [] 7 3)) 1 =
     Inr (sample_task\<lparr>Title := [CHR 0xEF, CHR 0xBF, CHR 0xBD], Description := [], DueDate := 7,
            Priority := 3, UpdatedAt := 5\<rparr>) \<and>
   [CHR 0xEF, CHR 0xBF, CHR 0xBD] \<noteq> [CHR 0xFF]"
  by (simp add: App_UpdateTaskDetails_def eval_defs utf8_seq_len_def byte_in_def replacement_char_def)

text \<open>
  C7, amended. For a task stored under its id, a successful \<open>UpdateTaskDetails\<close> stores the
  title and the description given, coerced to valid UTF-8 (so the strings themselves when
  they are valid UTF-8, the empty description included), the due date and the priority
  given, and the time of the call as \<open>updated_at\<close>; id, completed, progress and \<open>created_at\<close>
  are as before. It succeeds when the record can be written. For an id that \<open>GetTask\<close> does
  not find it returns the not-found error and the directory is unchanged.
\<close>

theorem details_replace_fields:
  "(GetTask fs tid = Inr t \<and> ID t = tid \<longrightarrow>
      (fst (App_UpdateTaskDetails now fs tid title desc dueDate priority) = None \<longrightarrow>
         (\<exists>t'. GetTask (snd (App_UpdateTaskDetails now fs tid title desc dueDate priority)) tid = Inr t' \<and>
               Title t' = json_string 0 title \<and> (valid_utf8 0 title \<longrightarrow> Title t' = title) \<and>
               Description t' = json_string 0 desc \<and> (valid_utf8 0 desc \<longrightarrow> Description t' = desc) \<and>
               DueDate t' = dueDate \<and> Priority t' = priority \<and> UpdatedAt t' = now \<and>
               ID t' = ID t \<and> Completed t' = Completed t \<and> Progress t' = Progress t \<and>
               CreatedAt t' = CreatedAt t)) \<and>
      (writable_at fs (getTaskFilename tid) \<and> json_time_ok now \<and> json_time_ok dueDate \<and>
       json_time_ok (CreatedAt t) \<longrightarrow>
         fst (App_UpdateTaskDetails now fs tid title desc dueDate priority) = None)) \<and>
   (GetTask fs tid = Inl (TaskNotFound tid) \<longrightarrow>
      App_UpdateTaskDetails now fs tid title desc dueDate priority = (Some (TaskNotFound tid), fs))"
  by (auto simp: App_UpdateTaskDetails_def UpdateTask_def GetTask_after_saveTask saveTask_succeeds
      json_string_valid)

theorem details_replace_fields_witness:
  "GetTask one_task_dir 1 = Inr sample_task \<and> ID sample_task = 1 \<and>
   fst (App_UpdateTaskDetails 5 one_task_dir 1 ''Plan'' [] 7 3) = None \<and>
   GetTask (snd (App_UpdateTaskDetails 5 one_task_dir 1 ''Plan'' [] 7 3)) 1 =
     Inr (sample_task\<lparr>Title := ''Plan'', Description := [], DueDate := 7, Priority := 3,
            UpdatedAt := 5\<rparr>) \<and>
   valid_utf8 0 ''Plan'' \<and>
   GetTask one_task_dir 2 = Inl (TaskNotFound 2) \<and>
   App_UpdateTaskDetails 5 one_task_dir 2 ''Plan'' [] 7 3 = (Some (TaskNotFound 2), one_task_dir)"
  using details_replace_fields [where fs = one_task_dir and tid = 1 and t = sample_task
      and now = 5 and title = "''Plan''" and desc = "[]" and dueDate = 7 and priority = 3]
    details_replace_fields [where fs = one_task_dir and tid = 2 and t = sample_task
      and now = 5 and title = "''Plan''" and desc = "[]" and dueDate = 7 and priority = 3]
  by (simp add: App_UpdateTaskDetails_def eval_defs utf8_seq_len_def byte_in_def)

section \<open>Create, then get\<close>

text \<open>
  C6, as stated, fails for a title that is not valid UTF-8: the create succeeds and the
  record read back has the title with the invalid byte replaced by U+FFFD.
\<close>

theorem create_title_not_kept:
  "fst (CreateTask 5 \<lparr>nextID = 1\<rparr> fresh_dir raw_title_task) = None \<and>
   ID (fst (snd (CreateTask 5 \<lparr>nextID = 1\<rparr> fresh_dir raw_title_task))) = 1 \<and>
   GetTask (snd (snd (snd (CreateTask 5 \<lparr>nextID = 1\<rparr> fresh_dir raw_title_task)))) 1 =
     Inr (raw_title_task\<lparr>ID := 1, Title := [CHR 0xEF, CHR 0xBF, CHR 0xBD],
            CreatedAt := 5, UpdatedAt := 5\<rparr>) \<and>
   Title raw_title_task = [CHR 0xFF] \<and> [CHR 0xEF, CHR 0xBF, CHR 0xBD] \<noteq> [CHR 0xFF]"
  by (simp add: eval_defs raw_title_task_def zero_Task_def zero_time_def utf8_seq_len_def
      byte_in_def replacement_char_def)

text \<open>
  C6, amended. After a successful \<open>CreateTask\<close>, with no unreadable file in the way,
  \<open>GetTask\<close> of the id handed out returns a record with the due date, priority, progress and
  completed flag of the input, and with its title and description coerced to valid UTF-8:
  equal to the input's when those are valid UTF-8.
\<close>

theorem create_then_get:
  assumes "CreateTask now s fs task = (None, task', s', fs')"
    and "reads_back fs (getTaskFilename (nextID s))"
  shows "\<exists>v. GetTask fs' (ID task') = Inr v \<and>
           Title v = json_string 0 (Title task) \<and> (valid_utf8 0 (Title task) \<longrightarrow> Title v = Title task) \<and>
           Description v = json_string 0 (Description task) \<and>
           (valid_utf8 0 (Description task) \<longrightarrow> Description v = Description task) \<and>
           DueDate v = DueDate task \<and> Priority v = Priority task \<and>
           Progress v = Progress task \<and> Completed v = Completed task \<and>
           ID v = ID task' \<and> CreatedAt v = now \<and> UpdatedAt v = now"
  using assms
  by (auto simp: CreateTask_def saveCounter_def saveTask_def os_WriteFile_def os_ReadFile_def
      GetTask_def marshal_task_def reads_back_def Let_def json_string_valid
      split: option.splits node.splits if_splits prod.splits)

theorem create_then_get_witness:
  "CreateTask 1767225600000000000 \<lparr>nextID = 1\<rparr> fresh_dir (sample_task\<lparr>ID := 0\<rparr>) =
     (None, sample_task, \<lparr>nextID = 2\<rparr>, one_task_dir) \<and>
   reads_back fresh_dir (getTaskFilename 1) \<and> valid_utf8 0 (Title sample_task) \<and>
   valid_utf8 0 (Description sample_task) \<and>
   GetTask one_task_dir 1 = Inr sample_task"
  using create_then_get [where now = 1767225600000000000 and s = "\<lparr>nextID = 1\<rparr>"
      and fs = fresh_dir and task = "sample_task\<lparr>ID := 0\<rparr>" and task' = sample_task
      and s' = "\<lparr>nextID = 2\<rparr>" and fs' = one_task_dir]
  by (simp add: eval_defs reads_back_def utf8_seq_len_def byte_in_def)

section \<open>Ids handed out by one store instance\<close>

lemma CreateTask_id:
  "ID (fst (snd (CreateTask now s fs task))) = nextID s"
  "nextID (fst (snd (snd (CreateTask now s fs task)))) = nextID s + 1"
  "CreatedAt (fst (snd (CreateTask now s fs task))) = UpdatedAt (fst (snd (CreateTask now s fs task)))"
  by (auto simp: CreateTask_def Let_def split: prod.splits option.splits)

lemma CreateTasks_ids:
  "sint (nextID s) + int (length calls) \<le> 2 ^ 63 \<Longrightarrow>
   (\<forall>r \<in> set (fst (CreateTasks s fs calls)). sint (nextID s) \<le> sint (ID (snd r))) \<and>
   sorted_wrt (<) (map (sint \<circ> ID \<circ> snd) (fst (CreateTasks s fs calls)))"
proof (induction calls arbitrary: s fs)
  case Nil
  then show ?case by simp
next
  case (Cons c calls)
  obtain now task where c: "c = (now, task)" by (cases c)
  obtain err task' s' fs' where ct: "CreateTask now s fs task = (err, task', s', fs')"
    by (cases "CreateTask now s fs task")
  have id: "ID task' = nextID s" and nx: "nextID s' = nextID s + 1"
    using CreateTask_id(1,2) [of now s fs task] ct by simp_all
  show ?case
  proof (cases calls)
    case Nil
    then show ?thesis using c ct id by simp
  next
    case (Cons d ds)
    then have small: "sint (nextID s) < 2 ^ 63 - 1" using Cons.prems by simp
    have nx': "sint (nextID s') = sint (nextID s) + 1"
      using sint_succ [OF small] nx by simp
    have "sint (nextID s') + int (length calls) \<le> 2 ^ 63"
      using Cons.prems nx' by simp
    from Cons.IH [OF this, of fs'] show ?thesis
      using c ct id nx' by (fastforce split: prod.splits)
  qed
qed

lemma CreateTasks_Cons_fst:
  "fst (CreateTasks s fs ((now, task) # calls)) =
     (fst (CreateTask now s fs task), fst (snd (CreateTask now s fs task))) #
     fst (CreateTasks (fst (snd (snd (CreateTask now s fs task))))
            (snd (snd (snd (CreateTask now s fs task)))) calls)"
  by (simp split: prod.splits)

lemma CreateTasks_length: "length (fst (CreateTasks s fs calls)) = length calls"
proof (induction calls arbitrary: s fs)
  case Nil
  show ?case by simp
next
  case (Cons c calls)
  then show ?case by (cases c) (simp only: CreateTasks_Cons_fst list.size)
qed

lemma CreateTasks_stamps:
  "r \<in> set (fst (CreateTasks s fs calls)) \<Longrightarrow> CreatedAt (snd r) = UpdatedAt (snd r)"
proof (induction calls arbitrary: s fs)
  case Nil
  then show ?case by simp
next
  case (Cons c calls)
  obtain now task where c: "c = (now, task)" by (cases c)
  obtain err task' s' fs' where ct: "CreateTask now s fs task = (err, task', s', fs')"
    by (cases "CreateTask now s fs task")
  have "CreatedAt task' = UpdatedAt task'"
    using CreateTask_id(3) [of now s fs task] ct by simp
  then show ?case
    using Cons.prems Cons.IH [of s' fs'] c ct by (auto split: prod.splits)
qed

text \<open>
  C1, as stated, fails when the counter reaches the largest \<open>int64\<close>: \<open>nextID++\<close> wraps, and
  the next id handed out is the smallest \<open>int64\<close>. Both creates below succeed.
\<close>

theorem create_ids_wrap:
  "Init \<lparr>nextID = 0\<rparr> max_counter_dir = (None, \<lparr>nextID = 9223372036854775807\<rparr>, max_counter_dir) \<and>
   map fst (fst (CreateTasks \<lparr>nextID = 9223372036854775807\<rparr> max_counter_dir
                  [(5, sample_task), (6, sample_task)])) = [None, None] \<and>
   map (sint \<circ> ID \<circ> snd) (fst (CreateTasks \<lparr>nextID = 9223372036854775807\<rparr> max_counter_dir
                  [(5, sample_task), (6, sample_task)])) =
     [9223372036854775807, - 9223372036854775808] \<and>
   \<not> sorted_wrt (<) (map (sint \<circ> ID \<circ> snd)
         (fst (CreateTasks \<lparr>nextID = 9223372036854775807\<rparr> max_counter_dir
                  [(5, sample_task), (6, sample_task)])))"
  by (simp add: Init_def eval_defs max_counter_dir_def)

text \<open>
  C1, amended. In a sequence of \<open>CreateTask\<close> calls on one store instance during which the
  counter does not pass the largest \<open>int64\<close>, each id handed out is strictly greater than
  every id handed out before it in the sequence, whether the calls succeed or fail; and
  every task comes back with \<open>created_at\<close> equal to \<open>updated_at\<close>.
\<close>

theorem create_ids_increase:
  assumes "sint (nextID s) + int (length calls) \<le> 2 ^ 63"
  shows "length (fst (CreateTasks s fs calls)) = length calls \<and>
         sorted_wrt (<) (map (sint \<circ> ID \<circ> snd) (fst (CreateTasks s fs calls))) \<and>
         (\<forall>r \<in> set (fst (CreateTasks s fs calls)). CreatedAt (snd r) = UpdatedAt (snd r))"
  using CreateTasks_ids [OF assms, of fs] by (simp add: CreateTasks_length CreateTasks_stamps)

theorem create_ids_increase_witness:
  "sint (nextID \<lparr>nextID = 1\<rparr>) + int (length [(5, sample_task), (6, sample_task)]) \<le> 2 ^ 63 \<and>
   map fst (fst (CreateTasks \<lparr>nextID = 1\<rparr> fresh_dir [(5, sample_task), (6, sample_task)])) =
     [None, None] \<and>
   map (sint \<circ> ID \<circ> snd)
     (fst (CreateTasks \<lparr>nextID = 1\<rparr> fresh_dir [(5, sample_task), (6, sample_task)])) = [1, 2] \<and>
   sorted_wrt (<) (map (sint \<circ> ID \<circ> snd)
     (fst (CreateTasks \<lparr>nextID = 1\<rparr> fresh_dir [(5, sample_task), (6, sample_task)])))"
  using create_ids_increase [where s = "\<lparr>nextID = 1\<rparr>" and fs = fresh_dir
      and calls = "[(5, sample_task), (6, sample_task)]"]
  by (simp add: eval_defs)

section \<open>Listing the tasks\<close>

text \<open>The names the store writes yield their id, and the store keeps a directory named so.\<close>

lemma task_file_id_getTaskFilename: "task_file_id (getTaskFilename tid) = Some tid"
  by (simp add: task_file_id_def getTaskFilename_def HasPrefix_def HasSuffix_def TrimPrefix_def
      TrimSuffix_def ParseInt_fmt_d)

lemma task_file_id_counterFile: "task_file_id counterFile = None"
  by (simp add: task_file_id_def counterFile_def HasPrefix_def)

lemma store_named_store_entry:
  "store_named es \<Longrightarrow> (\<And>tid. task_file_id name = Some tid \<Longrightarrow> name = getTaskFilename tid) \<Longrightarrow>
   store_named (store_entry name n es)"
  by (induction es) (auto simp: store_named_def split: option.splits)

lemma store_named_kept:
  "store_named (entries fs) \<Longrightarrow> store_named (entries (snd (saveTask fs t)))"
  "store_named (entries fs) \<Longrightarrow> store_named (entries (snd (saveCounter s fs)))"
  by (auto simp: saveTask_def saveCounter_def os_WriteFile_def task_file_id_getTaskFilename
      task_file_id_counterFile intro!: store_named_store_entry
      split: option.splits node.splits)








end
